theory Spec2Isabelle
  imports Main "HOL-Library.Word"
begin

section \<open>The weather record (package models)\<close>

text \<open>
  \<^verbatim>\<open>type Weather struct { City string; Temperature float64; UpdatedAt time.Time }\<close>
  with the JSON tags \<^verbatim>\<open>city\<close>, \<^verbatim>\<open>temperature\<close>, \<^verbatim>\<open>updated_at\<close>.
  The program never computes with a temperature or a time, it only moves them: a
  \<^verbatim>\<open>float64\<close> is carried as its 64 bits, a \<^verbatim>\<open>time.Time\<close> as an instant counted from
  the zero time. Both zero values are 0.
\<close>

type_synonym float64 = "64 word"
type_synonym Time = int

record Weather =
  City :: string
  Temperature :: float64
  UpdatedAt :: Time

text \<open>The value of \<^verbatim>\<open>var weatherUpdate models.Weather\<close>: every field zero.\<close>

definition zeroWeather :: Weather where
  "zeroWeather = \<lparr>City = [], Temperature = 0, UpdatedAt = 0\<rparr>"

text \<open>
  What the JSON encoder is given for a record: the three fields under the names of
  their struct tags, in the order of the struct. How a field is spelled on the wire
  is the encoder's business.
\<close>

datatype fieldValue = FString string | FFloat64 float64 | FTime Time

definition taggedFields :: "Weather \<Rightarrow> (string \<times> fieldValue) list" where
  "taggedFields w =
     [(''city'', FString (City w)),
      (''temperature'', FFloat64 (Temperature w)),
      (''updated_at'', FTime (UpdatedAt w))]"

section \<open>Pointers and the lock\<close>

text \<open>
  The storage maps a city to a \<^verbatim>\<open>*Weather\<close>. A pointer is \<open>None\<close> (nil) or the
  address of a record; the records live in a heap \<open>addr \<Rightarrow> Weather\<close>.
\<close>

type_synonym addr = nat
type_synonym ptr = "addr option"

text \<open>
  What stops a call from returning normally: it waits for a lock that the single
  thread of this model cannot release, the runtime aborts on unlocking a lock that
  is not held, or a nil pointer is dereferenced.
\<close>

datatype fault = Blocked | FatalUnlock | NilDereference

text \<open>\<^verbatim>\<open>sync.RWMutex\<close>: any number of readers, or one writer.\<close>

record RWMutex =
  readers :: nat
  writer :: bool

definition unlocked :: "RWMutex \<Rightarrow> bool" where
  "unlocked m \<longleftrightarrow> readers m = 0 \<and> \<not> writer m"

definition RLock :: "RWMutex \<Rightarrow> fault + RWMutex" where
  "RLock m = (if writer m then Inl Blocked else Inr (m\<lparr>readers := Suc (readers m)\<rparr>))"

definition RUnlock :: "RWMutex \<Rightarrow> fault + RWMutex" where
  "RUnlock m = (if readers m = 0 then Inl FatalUnlock else Inr (m\<lparr>readers := readers m - 1\<rparr>))"

definition Lock :: "RWMutex \<Rightarrow> fault + RWMutex" where
  "Lock m = (if writer m \<or> 0 < readers m then Inl Blocked else Inr (m\<lparr>writer := True\<rparr>))"

definition Unlock :: "RWMutex \<Rightarrow> fault + RWMutex" where
  "Unlock m = (if writer m then Inr (m\<lparr>writer := False\<rparr>) else Inl FatalUnlock)"

section \<open>The storage (pkg/models/storage.go)\<close>

record WeatherStorage =
  mu :: RWMutex
  weathers :: "string \<rightharpoonup> ptr"

definition NewWeatherStorage :: WeatherStorage where
  "NewWeatherStorage = \<lparr>mu = \<lparr>readers = 0, writer = False\<rparr>, weathers = Map.empty\<rparr>"

text \<open>
  \<^verbatim>\<open>GetWeather\<close>: read lock, look the city up, nil when the key is missing, and the
  deferred read unlock on the way out. The result is the pointer and the storage as
  the call leaves it.
\<close>

definition GetWeather :: "WeatherStorage \<Rightarrow> string \<Rightarrow> fault + (ptr \<times> WeatherStorage)" where
  "GetWeather s city =
     (case RLock (mu s) of
        Inl f \<Rightarrow> Inl f
      | Inr m1 \<Rightarrow>
          let s1 = s\<lparr>mu := m1\<rparr>;
              res = (case weathers s1 city of None \<Rightarrow> None | Some weather \<Rightarrow> weather)
          in (case RUnlock (mu s1) of
                Inl f \<Rightarrow> Inl f
              | Inr m2 \<Rightarrow> Inr (res, s1\<lparr>mu := m2\<rparr>)))"

text \<open>
  \<^verbatim>\<open>UpdateWeather\<close>: write lock, \<^verbatim>\<open>s.weathers[weather.City] = weather\<close>, deferred
  unlock. Reading \<^verbatim>\<open>weather.City\<close> through a nil pointer panics. The heap \<open>h\<close> is only
  read.
\<close>

definition UpdateWeather ::
    "(addr \<Rightarrow> Weather) \<Rightarrow> WeatherStorage \<Rightarrow> ptr \<Rightarrow> fault + WeatherStorage" where
  "UpdateWeather h s weather =
     (case Lock (mu s) of
        Inl f \<Rightarrow> Inl f
      | Inr m1 \<Rightarrow>
          let s1 = s\<lparr>mu := m1\<rparr> in
          (case weather of
             None \<Rightarrow> Inl NilDereference
           | Some a \<Rightarrow>
               let s2 = s1\<lparr>weathers := (weathers s1)(City (h a) \<mapsto> weather)\<rparr> in
               (case Unlock (mu s2) of
                  Inl f \<Rightarrow> Inl f
                | Inr m2 \<Rightarrow> Inr (s2\<lparr>mu := m2\<rparr>))))"

section \<open>The HTTP handlers (cmd/http_server/main.go)\<close>

text \<open>
  A handler answers with \<^verbatim>\<open>http.Error(w, msg, code)\<close> or with
  \<^verbatim>\<open>render.JSON(w, r, v)\<close>; the response records which call was made, with its
  arguments.
\<close>

datatype response = HttpError string nat | RenderJSON Weather

definition StatusBadRequest :: nat where "StatusBadRequest = 400"
definition StatusNotFound :: nat where "StatusNotFound = 404"
definition StatusOK :: nat where "StatusOK = 200"
definition StatusInternalServerError :: nat where "StatusInternalServerError = 500"

text \<open>
  \<^verbatim>\<open>render.JSON\<close> (package go-chi/render) encodes the value into a buffer with
  \<^verbatim>\<open>json.NewEncoder(buf).Encode(v)\<close>. The encoder belongs to the standard library and
  is a parameter of the model: from the tagged fields it gives \<open>Inl\<close> the error text
  when \<^verbatim>\<open>err != nil\<close>, and otherwise \<open>Inr\<close> the bytes it wrote.
\<close>

type_synonym encoder = "(string \<times> fieldValue) list \<Rightarrow> string + string"

text \<open>
  What reaches the client. \<^verbatim>\<open>http.Error\<close> writes its code and the message followed by
  a newline. \<^verbatim>\<open>render.JSON\<close> answers an encoding error with
  \<^verbatim>\<open>http.Error(w, err.Error(), http.StatusInternalServerError)\<close>; otherwise it writes
  the buffer, and as no handler here sets a status in the request context the status
  is 200.
\<close>

fun statusCode :: "encoder \<Rightarrow> response \<Rightarrow> nat" where
  "statusCode encode (HttpError msg code) = code"
| "statusCode encode (RenderJSON v) =
     (case encode (taggedFields v) of
        Inl err \<Rightarrow> StatusInternalServerError
      | Inr buf \<Rightarrow> StatusOK)"


text \<open>
  What a request can see and change: the heap of weather records, the next address
  the allocator hands out, and the one storage that \<^verbatim>\<open>main\<close> creates and gives to both
  handlers.
\<close>

record server =
  cells :: "addr \<Rightarrow> Weather"
  nextAddr :: addr
  storage :: WeatherStorage

definition initial :: server where
  "initial = \<lparr>cells = (\<lambda>a. zeroWeather), nextAddr = 0, storage = NewWeatherStorage\<rparr>"

text \<open>A new variable of type \<^verbatim>\<open>Weather\<close> whose address is taken: a fresh cell holding \<open>v\<close>.\<close>

definition alloc :: "Weather \<Rightarrow> server \<Rightarrow> addr \<times> server" where
  "alloc v st =
     (nextAddr st, st\<lparr>cells := (cells st)(nextAddr st := v), nextAddr := Suc (nextAddr st)\<rparr>)"

text \<open>
  \<^verbatim>\<open>json.NewDecoder(r.Body).Decode(&weatherUpdate)\<close> belongs to the standard library.
  It is a parameter of the model: from the body and the record it decodes into, it
  gives \<open>None\<close> when \<^verbatim>\<open>err != nil\<close> and otherwise the record as the call leaves it.
\<close>

type_synonym decoder = "string \<Rightarrow> Weather \<Rightarrow> Weather option"

text \<open>\<^verbatim>\<open>getWeatherHandler\<close>, given the path parameter \<^verbatim>\<open>city\<close>.\<close>

definition getWeatherHandler :: "server \<Rightarrow> string \<Rightarrow> fault + (response \<times> server)" where
  "getWeatherHandler st city =
     (if city = [] then Inr (HttpError ''City parameter is required'' StatusBadRequest, st)
      else
        (case GetWeather (storage st) city of
           Inl f \<Rightarrow> Inl f
         | Inr (weather, s') \<Rightarrow>
             let st1 = st\<lparr>storage := s'\<rparr> in
             (case weather of
                None \<Rightarrow>
                  Inr (HttpError (''Weather for city '' @ [CHR 0x27] @ city @ [CHR 0x27] @ '' not found'')
                         StatusNotFound, st1)
              | Some a \<Rightarrow> Inr (RenderJSON (cells st1 a), st1))))"

text \<open>
  \<^verbatim>\<open>updateWeatherHandler\<close>, given the path parameter \<^verbatim>\<open>city\<close>, the request body and
  the value \<^verbatim>\<open>time.Now()\<close> returns during the call.
\<close>

definition updateWeatherHandler ::
    "decoder \<Rightarrow> server \<Rightarrow> string \<Rightarrow> string \<Rightarrow> Time \<Rightarrow> fault + (response \<times> server)" where
  "updateWeatherHandler decode st city body now =
     (if city = [] then Inr (HttpError ''City parameter is required'' StatusBadRequest, st)
      else
        let (weatherUpdate, st1) = alloc zeroWeather st in
        (case decode body (cells st1 weatherUpdate) of
           None \<Rightarrow> Inr (HttpError ''Invalid request body'' StatusBadRequest, st1)
         | Some decoded \<Rightarrow>
             let st2 = st1\<lparr>cells := (cells st1)(weatherUpdate := decoded)\<rparr>;
                 st3 = st2\<lparr>cells := (cells st2)(weatherUpdate := (cells st2 weatherUpdate)\<lparr>City := city\<rparr>)\<rparr>;
                 st4 = st3\<lparr>cells := (cells st3)(weatherUpdate := (cells st3 weatherUpdate)\<lparr>UpdatedAt := now\<rparr>)\<rparr>
             in (case UpdateWeather (cells st4) (storage st4) (Some weatherUpdate) of
                   Inl f \<Rightarrow> Inl f
                 | Inr s' \<Rightarrow> Inr (RenderJSON (cells st4 weatherUpdate), st4\<lparr>storage := s'\<rparr>))))"

section \<open>Runs of the server\<close>

text \<open>
  One operation on the storage, as a caller performs it: a direct \<^verbatim>\<open>GetWeather\<close>, a
  direct \<^verbatim>\<open>UpdateWeather\<close> of a record the caller has just built, or one of the two
  HTTP requests.
\<close>

datatype op =
    OpGet string
  | OpPut Weather
  | OpGetRequest string
  | OpUpdateRequest string string Time

fun step :: "decoder \<Rightarrow> op \<Rightarrow> server \<Rightarrow> fault + server" where
  "step decode (OpGet city) st =
     (case GetWeather (storage st) city of
        Inl f \<Rightarrow> Inl f
      | Inr (weather, s') \<Rightarrow> Inr (st\<lparr>storage := s'\<rparr>))"
| "step decode (OpPut r) st =
     (let (a, st1) = alloc r st in
      case UpdateWeather (cells st1) (storage st1) (Some a) of
        Inl f \<Rightarrow> Inl f
      | Inr s' \<Rightarrow> Inr (st1\<lparr>storage := s'\<rparr>))"
| "step decode (OpGetRequest city) st =
     (case getWeatherHandler st city of Inl f \<Rightarrow> Inl f | Inr (resp, st') \<Rightarrow> Inr st')"
| "step decode (OpUpdateRequest city body now) st =
     (case updateWeatherHandler decode st city body now of
        Inl f \<Rightarrow> Inl f
      | Inr (resp, st') \<Rightarrow> Inr st')"

fun run :: "decoder \<Rightarrow> op list \<Rightarrow> server \<Rightarrow> fault + server" where
  "run decode [] st = Inr st"
| "run decode (x # xs) st =
     (case step decode x st of Inl f \<Rightarrow> Inl f | Inr st' \<Rightarrow> run decode xs st')"

text \<open>The city an operation writes, if it writes one.\<close>

fun putCity :: "decoder \<Rightarrow> op \<Rightarrow> string option" where
  "putCity decode (OpGet city) = None"
| "putCity decode (OpPut r) = Some (City r)"
| "putCity decode (OpGetRequest city) = None"
| "putCity decode (OpUpdateRequest city body now) =
     (if city = [] \<or> decode body zeroWeather = None then None else Some city)"

text \<open>The record a city maps to: the stored pointer followed into the heap.\<close>

definition stored :: "server \<Rightarrow> string \<Rightarrow> Weather option" where
  "stored st city =
     (case weathers (storage st) city of
        None \<Rightarrow> None
      | Some None \<Rightarrow> None
      | Some (Some a) \<Rightarrow> Some (cells st a))"

section \<open>Well-formed JSON text\<close>

text \<open>
  The program has no check of its own for JSON: it calls \<^verbatim>\<open>Decode\<close>. To compare the
  handler with the words "well-formed JSON", this is the grammar of RFC 8259 as a
  recogniser on bytes: each function returns the input left after what it
  recognised, or \<open>None\<close>. Bytes from 0x80 up are accepted inside a string as they
  are. The recursion on nested values is bounded by a counter that starts one above
  the length of the text.
\<close>

definition isWs :: "char \<Rightarrow> bool" where
  "isWs c \<longleftrightarrow> c = CHR 0x20 \<or> c = CHR 0x09 \<or> c = CHR 0x0A \<or> c = CHR 0x0D"

definition skipWs :: "string \<Rightarrow> string" where
  "skipWs s = dropWhile isWs s"

definition isDigit :: "char \<Rightarrow> bool" where
  "isDigit c \<longleftrightarrow> c \<in> set ''0123456789''"

definition isHex :: "char \<Rightarrow> bool" where
  "isHex c \<longleftrightarrow> c \<in> set ''0123456789abcdefABCDEF''"

fun jsonChars :: "string \<Rightarrow> string option" where
  "jsonChars [] = None"
| "jsonChars (c # cs) =
     (if c = CHR 0x22 then Some cs
      else if c = CHR 0x5C then
        (case cs of
           [] \<Rightarrow> None
         | e # es \<Rightarrow>
             if e \<in> set [CHR 0x22, CHR 0x5C, CHR ''/'', CHR ''b'', CHR ''f'', CHR ''n'', CHR ''r'', CHR ''t'']
             then jsonChars es
             else if e = CHR ''u'' then
               (case es of
                  h1 # h2 # h3 # h4 # rest \<Rightarrow>
                    if isHex h1 \<and> isHex h2 \<and> isHex h3 \<and> isHex h4 then jsonChars rest else None
                | _ \<Rightarrow> None)
             else None)
      else if (of_char c :: nat) < 0x20 then None
      else jsonChars cs)"

definition jsonString :: "string \<Rightarrow> string option" where
  "jsonString s = (case s of [] \<Rightarrow> None | c # cs \<Rightarrow> if c = CHR 0x22 then jsonChars cs else None)"

definition jsonDigits :: "string \<Rightarrow> string option" where
  "jsonDigits s = (if takeWhile isDigit s = [] then None else Some (dropWhile isDigit s))"

definition jsonInt :: "string \<Rightarrow> string option" where
  "jsonInt s =
     (case s of
        [] \<Rightarrow> None
      | c # cs \<Rightarrow> if c = CHR ''0'' then Some cs else if isDigit c then Some (dropWhile isDigit cs) else None)"

definition jsonFrac :: "string \<Rightarrow> string option" where
  "jsonFrac s = (case s of [] \<Rightarrow> Some s | c # cs \<Rightarrow> if c = CHR ''.'' then jsonDigits cs else Some s)"

definition jsonExp :: "string \<Rightarrow> string option" where
  "jsonExp s =
     (case s of
        [] \<Rightarrow> Some s
      | c # cs \<Rightarrow>
          if c = CHR ''e'' \<or> c = CHR ''E'' then
            (case cs of
               [] \<Rightarrow> None
             | d # ds \<Rightarrow> if d = CHR ''+'' \<or> d = CHR ''-'' then jsonDigits ds else jsonDigits cs)
          else Some s)"

definition jsonNumber :: "string \<Rightarrow> string option" where
  "jsonNumber s =
     (let s1 = (case s of [] \<Rightarrow> s | c # cs \<Rightarrow> if c = CHR ''-'' then cs else s) in
      case jsonInt s1 of
        None \<Rightarrow> None
      | Some r1 \<Rightarrow> (case jsonFrac r1 of None \<Rightarrow> None | Some r2 \<Rightarrow> jsonExp r2))"

definition jsonLiteral :: "string \<Rightarrow> string \<Rightarrow> string option" where
  "jsonLiteral lit s = (if take (length lit) s = lit then Some (drop (length lit) s) else None)"

fun jsonValue :: "nat \<Rightarrow> string \<Rightarrow> string option"
  and jsonMembers :: "nat \<Rightarrow> string \<Rightarrow> string option"
  and jsonElements :: "nat \<Rightarrow> string \<Rightarrow> string option" where
  "jsonValue 0 s = None"
| "jsonValue (Suc n) s =
     (case s of
        [] \<Rightarrow> None
      | c # cs \<Rightarrow>
          if c = CHR ''{'' then
            (case skipWs cs of
               [] \<Rightarrow> None
             | d # ds \<Rightarrow> if d = CHR ''}'' then Some ds else jsonMembers n (d # ds))
          else if c = CHR ''['' then
            (case skipWs cs of
               [] \<Rightarrow> None
             | d # ds \<Rightarrow> if d = CHR '']'' then Some ds else jsonElements n (d # ds))
          else if c = CHR 0x22 then jsonChars cs
          else if c = CHR ''t'' then jsonLiteral ''true'' s
          else if c = CHR ''f'' then jsonLiteral ''false'' s
          else if c = CHR ''n'' then jsonLiteral ''null'' s
          else jsonNumber s)"
| "jsonMembers 0 s = None"
| "jsonMembers (Suc n) s =
     (case jsonString s of
        None \<Rightarrow> None
      | Some r1 \<Rightarrow>
          (case skipWs r1 of
             [] \<Rightarrow> None
           | c # cs \<Rightarrow>
               if c = CHR '':'' then
                 (case jsonValue n (skipWs cs) of
                    None \<Rightarrow> None
                  | Some r2 \<Rightarrow>
                      (case skipWs r2 of
                         [] \<Rightarrow> None
                       | d # ds \<Rightarrow>
                           if d = CHR '','' then jsonMembers n (skipWs ds)
                           else if d = CHR ''}'' then Some ds
                           else None))
               else None))"
| "jsonElements 0 s = None"
| "jsonElements (Suc n) s =
     (case jsonValue n s of
        None \<Rightarrow> None
      | Some r \<Rightarrow>
          (case skipWs r of
             [] \<Rightarrow> None
           | d # ds \<Rightarrow>
               if d = CHR '','' then jsonElements n (skipWs ds)
               else if d = CHR '']'' then Some ds
               else None))"

definition wellFormedJSON :: "string \<Rightarrow> bool" where
  "wellFormedJSON s =
     (case jsonValue (Suc (length s)) (skipWs s) of
        None \<Rightarrow> False
      | Some r \<Rightarrow> skipWs r = [])"

section \<open>Well-formed states and example data\<close>

text \<open>
  Between two calls the lock is free, every map entry holds the address of an
  allocated record, and that record carries the key as its city.
\<close>

definition wellFormed :: "server \<Rightarrow> bool" where
  "wellFormed st \<longleftrightarrow>
     unlocked (mu (storage st)) \<and>
     (\<forall>c p. weathers (storage st) c = Some p \<longrightarrow>
        (\<exists>a. p = Some a \<and> a < nextAddr st \<and> City (cells st a) = c))"

text \<open>
  Data for the examples. Three request bodies: one that gives a temperature, the same
  followed by further bytes, and one whose temperature is beyond \<^verbatim>\<open>float64\<close>. The
  example decoder does on them, and on the empty object, what \<^verbatim>\<open>Decode\<close> does: it
  sets the temperature to 21.5 (as bits) for the first two, as it reads one value and
  stops, sets no field for the empty object, and returns an error for the third. It
  rejects every other body.
\<close>

definition temperatureBody :: string where
  \<open>temperatureBody = ''{"temperature":21.5}''\<close>

definition trailingBody :: string where
  \<open>trailingBody = ''{"temperature":21.5} x''\<close>

definition rangeBody :: string where
  \<open>rangeBody = ''{"temperature":1e400}''\<close>

definition exampleDecoder :: decoder where
  "exampleDecoder body w =
     (if body = ''{}'' then Some w
      else if body = temperatureBody \<or> body = trailingBody
      then Some (w\<lparr>Temperature := 0x4035800000000000\<rparr>)
      else None)"

text \<open>
  Three records: 21.5 degrees in Moscow updated at instant 7, the same updated at the
  zero time, and a Moscow record whose temperature is a NaN.
\<close>

definition moscow :: Weather where
  "moscow = \<lparr>City = ''Moscow'', Temperature = 0x4035800000000000, UpdatedAt = 7\<rparr>"

definition moscowAtZero :: Weather where
  "moscowAtZero = \<lparr>City = ''Moscow'', Temperature = 0x4035800000000000, UpdatedAt = 0\<rparr>"

definition nanWeather :: Weather where
  "nanWeather = \<lparr>City = ''Moscow'', Temperature = 0x7FF8000000000000, UpdatedAt = 0\<rparr>"

text \<open>
  The example encoder does on the last two records what \<^verbatim>\<open>Encode\<close> does: it refuses
  the NaN, and writes the other as one line, the zero time in RFC 3339. Its value on
  any other record is not used.
\<close>

definition moscowAtZeroJSON :: string where
  \<open>moscowAtZeroJSON =
     ''{"city":"Moscow","temperature":21.5,"updated_at":"0001-01-01T00:00:00Z"}'' @ [CHR 0x0A]\<close>

definition exampleEncoder :: encoder where
  "exampleEncoder fs =
     (if fs = taggedFields nanWeather then Inl ''json: unsupported value: NaN''
      else if fs = taggedFields moscowAtZero then Inr moscowAtZeroJSON
      else Inr [])"

text \<open>
  The state after one put of \<open>r\<close> into the empty storage, and the state after an
  update request whose body was rejected: a record was allocated, nothing stored.
\<close>

definition afterPut :: "Weather \<Rightarrow> server" where
  "afterPut r =
     initial\<lparr>cells := (cells initial)(0 := r), nextAddr := Suc 0,
             storage := (storage initial)\<lparr>weathers := [City r \<mapsto> Some 0]\<rparr>\<rparr>"

definition afterRejectedBody :: server where
  "afterRejectedBody = initial\<lparr>cells := (cells initial)(0 := zeroWeather), nextAddr := Suc 0\<rparr>"

section \<open>Facts about the lock and the storage\<close>

lemma unlocked_RLock_RUnlock:
  "unlocked m \<Longrightarrow> \<exists>m1. RLock m = Inr m1 \<and> RUnlock m1 = Inr m"
  by (simp add: unlocked_def RLock_def RUnlock_def)

lemma unlocked_Lock_Unlock:
  "unlocked m \<Longrightarrow> \<exists>m1. Lock m = Inr m1 \<and> Unlock m1 = Inr m"
  by (simp add: unlocked_def Lock_def Unlock_def)

lemma GetWeather_unlocked:
  "unlocked (mu s) \<Longrightarrow>
   GetWeather s city = Inr (case weathers s city of None \<Rightarrow> None | Some p \<Rightarrow> p, s)"
  by (simp add: GetWeather_def unlocked_def RLock_def RUnlock_def)

lemma UpdateWeather_unlocked:
  "unlocked (mu s) \<Longrightarrow>
   UpdateWeather h s (Some a) = Inr (s\<lparr>weathers := (weathers s)(City (h a) \<mapsto> Some a)\<rparr>)"
  by (simp add: UpdateWeather_def unlocked_def Lock_def Unlock_def)

lemma getWeatherHandler_unlocked:
  "unlocked (mu (storage st)) \<Longrightarrow>
   getWeatherHandler st city =
     Inr (if city = [] then HttpError ''City parameter is required'' StatusBadRequest
          else (case weathers (storage st) city of
                  Some (Some a) \<Rightarrow> RenderJSON (cells st a)
                | _ \<Rightarrow> HttpError (''Weather for city '' @ [CHR 0x27] @ city @ [CHR 0x27] @ '' not found'')
                         StatusNotFound), st)"
  by (simp add: getWeatherHandler_def GetWeather_unlocked split: option.splits)

lemma updateWeatherHandler_accept:
  "unlocked (mu (storage st)) \<Longrightarrow> city \<noteq> [] \<Longrightarrow> decode body zeroWeather = Some w \<Longrightarrow>
   updateWeatherHandler decode st city body now =
     Inr (RenderJSON (w\<lparr>City := city, UpdatedAt := now\<rparr>),
          st\<lparr>cells := (cells st)(nextAddr st := w\<lparr>City := city, UpdatedAt := now\<rparr>),
             nextAddr := Suc (nextAddr st),
             storage := (storage st)\<lparr>weathers := (weathers (storage st))(city \<mapsto> Some (nextAddr st))\<rparr>\<rparr>)"
  by (simp add: updateWeatherHandler_def alloc_def UpdateWeather_unlocked)

lemma updateWeatherHandler_reject:
  "city \<noteq> [] \<Longrightarrow> decode body zeroWeather = None \<Longrightarrow>
   updateWeatherHandler decode st city body now =
     Inr (HttpError ''Invalid request body'' StatusBadRequest,
          st\<lparr>cells := (cells st)(nextAddr st := zeroWeather), nextAddr := Suc (nextAddr st)\<rparr>)"
  by (simp add: updateWeatherHandler_def alloc_def)

lemma updateWeatherHandler_empty:
  "updateWeatherHandler decode st [] body now =
     Inr (HttpError ''City parameter is required'' StatusBadRequest, st)"
  by (simp add: updateWeatherHandler_def)

lemma step_OpPut_unlocked:
  "unlocked (mu (storage st)) \<Longrightarrow>
   step decode (OpPut r) st =
     Inr (st\<lparr>cells := (cells st)(nextAddr st := r),
             nextAddr := Suc (nextAddr st),
             storage := (storage st)\<lparr>weathers := (weathers (storage st))(City r \<mapsto> Some (nextAddr st))\<rparr>\<rparr>)"
  by (simp add: alloc_def UpdateWeather_unlocked)

lemma wellFormed_initial: "wellFormed initial"
  by (simp add: wellFormed_def initial_def NewWeatherStorage_def unlocked_def)

lemma wellFormed_alloc:
  "wellFormed st \<Longrightarrow>
   wellFormed (st\<lparr>cells := (cells st)(nextAddr st := r), nextAddr := Suc (nextAddr st)\<rparr>)"
  unfolding wellFormed_def
proof (intro conjI allI impI)
  assume h: "unlocked (mu (storage st)) \<and>
     (\<forall>c p. weathers (storage st) c = Some p \<longrightarrow>
        (\<exists>a. p = Some a \<and> a < nextAddr st \<and> City (cells st a) = c))"
  then show "unlocked (mu (storage (st\<lparr>cells := (cells st)(nextAddr st := r),
                 nextAddr := Suc (nextAddr st)\<rparr>)))" by simp
  fix c p
  assume "weathers (storage (st\<lparr>cells := (cells st)(nextAddr st := r),
             nextAddr := Suc (nextAddr st)\<rparr>)) c = Some p"
  then have "weathers (storage st) c = Some p" by simp
  with h obtain a where "p = Some a" "a < nextAddr st" "City (cells st a) = c" by blast
  then have "p = Some a \<and> a < Suc (nextAddr st) \<and> City (((cells st)(nextAddr st := r)) a) = c"
    by simp
  then show "\<exists>a. p = Some a \<and>
        a < nextAddr (st\<lparr>cells := (cells st)(nextAddr st := r), nextAddr := Suc (nextAddr st)\<rparr>) \<and>
        City (cells (st\<lparr>cells := (cells st)(nextAddr st := r), nextAddr := Suc (nextAddr st)\<rparr>) a) = c"
    by auto
qed

lemma wellFormed_insert:
  assumes "wellFormed st"
  shows "wellFormed (st\<lparr>cells := (cells st)(nextAddr st := r), nextAddr := Suc (nextAddr st),
            storage := (storage st)\<lparr>weathers := (weathers (storage st))(City r \<mapsto> Some (nextAddr st))\<rparr>\<rparr>)"
    (is "wellFormed ?st'")
proof -
  let ?st1 = "st\<lparr>cells := (cells st)(nextAddr st := r), nextAddr := Suc (nextAddr st)\<rparr>"
  from wellFormed_alloc [OF assms, of r]
  have u: "unlocked (mu (storage st))"
    and old: "\<And>c p. weathers (storage st) c = Some p \<Longrightarrow>
        \<exists>a. p = Some a \<and> a < Suc (nextAddr st) \<and> City (((cells st)(nextAddr st := r)) a) = c"
    by (simp_all add: wellFormed_def)
  have "\<exists>a. p = Some a \<and> a < nextAddr ?st' \<and> City (cells ?st' a) = c"
    if w: "weathers (storage ?st') c = Some p" for c p
  proof (cases "c = City r")
    case True
    with w have "p = Some (nextAddr st)" by simp
    with True show ?thesis by simp
  next
    case False
    with w have "weathers (storage st) c = Some p" by simp
    from old [OF this] show ?thesis by simp
  qed
  with u show ?thesis unfolding wellFormed_def by simp
qed

lemma step_wellFormed:
  assumes "wellFormed st"
  shows "\<exists>st'. step decode x st = Inr st' \<and> wellFormed st'"
proof -
  from assms have u: "unlocked (mu (storage st))" by (simp add: wellFormed_def)
  show ?thesis
  proof (cases x)
    case (OpGet city)
    with assms u show ?thesis by (simp add: GetWeather_unlocked)
  next
    case (OpPut r)
    with step_OpPut_unlocked [OF u, of decode r] wellFormed_insert [OF assms, of r]
    show ?thesis by (simp del: step.simps)
  next
    case (OpGetRequest city)
    with assms u show ?thesis by (simp add: getWeatherHandler_unlocked)
  next
    case (OpUpdateRequest city body now)
    show ?thesis
    proof (cases "city = []")
      case True
      with assms OpUpdateRequest show ?thesis by (simp add: updateWeatherHandler_empty)
    next
      case False
      show ?thesis
      proof (cases "decode body zeroWeather")
        case None
        with False OpUpdateRequest wellFormed_alloc [OF assms, of zeroWeather] show ?thesis
          by (simp add: updateWeatherHandler_reject)
      next
        case (Some w)
        with False u OpUpdateRequest
          wellFormed_insert [OF assms, of "w\<lparr>City := city, UpdatedAt := now\<rparr>"]
        show ?thesis by (simp add: updateWeatherHandler_accept)
      qed
    qed
  qed
qed

lemma run_wellFormed:
  "wellFormed st \<Longrightarrow> \<exists>st'. run decode xs st = Inr st' \<and> wellFormed st'"
proof (induction xs arbitrary: st)
  case Nil
  then show ?case by simp
next
  case (Cons x xs)
  from step_wellFormed [OF Cons.prems, of decode x]
  obtain st1 where s: "step decode x st = Inr st1" and w: "wellFormed st1" by blast
  from Cons.IH [OF w] s show ?case by simp
qed

lemma reachable_wellFormed:
  assumes "run decode ops initial = Inr st"
  shows "wellFormed st"
  using run_wellFormed [OF wellFormed_initial, of decode ops] assms by auto



section \<open>Reading back what was written\<close>

text \<open>
  Claim C1. After \<^verbatim>\<open>UpdateWeather\<close> of a record \<open>r\<close>, on any storage whose lock is
  free, the call returns and \<^verbatim>\<open>GetWeather\<close> of \<open>r\<close>'s city returns a pointer to a record
  equal to \<open>r\<close>. On the handler path, an accepted update request for \<open>city\<close> whose
  body decodes to \<open>w\<close> is answered with \<open>w\<close> carrying the path's city and the server's
  time, and a following get request for \<open>city\<close> is answered with that same record.
  When two records of one city are put one after the other, the read returns the
  second.
\<close>

theorem put_then_get:
  assumes "unlocked (mu (storage st))"
  shows "(\<exists>st' a. step decode (OpPut r) st = Inr st' \<and>
            GetWeather (storage st') (City r) = Inr (Some a, storage st') \<and> cells st' a = r)
       \<and> (city \<noteq> [] \<and> decode body zeroWeather = Some w \<longrightarrow>
            (\<exists>st'. updateWeatherHandler decode st city body now =
                      Inr (RenderJSON (w\<lparr>City := city, UpdatedAt := now\<rparr>), st') \<and>
                    getWeatherHandler st' city =
                      Inr (RenderJSON (w\<lparr>City := city, UpdatedAt := now\<rparr>), st')))
       \<and> (City r1 = City r2 \<longrightarrow>
            (\<exists>st1 st2 a. step decode (OpPut r1) st = Inr st1 \<and>
                step decode (OpPut r2) st1 = Inr st2 \<and>
                GetWeather (storage st2) (City r1) = Inr (Some a, storage st2) \<and>
                cells st2 a = r2))"
proof (intro conjI impI)
  show "\<exists>st' a. step decode (OpPut r) st = Inr st' \<and>
            GetWeather (storage st') (City r) = Inr (Some a, storage st') \<and> cells st' a = r"
    using assms by (simp add: step_OpPut_unlocked GetWeather_unlocked del: step.simps)
next
  assume "city \<noteq> [] \<and> decode body zeroWeather = Some w"
  with assms show "\<exists>st'. updateWeatherHandler decode st city body now =
                      Inr (RenderJSON (w\<lparr>City := city, UpdatedAt := now\<rparr>), st') \<and>
                    getWeatherHandler st' city =
                      Inr (RenderJSON (w\<lparr>City := city, UpdatedAt := now\<rparr>), st')"
    by (simp add: updateWeatherHandler_accept getWeatherHandler_unlocked)
next
  assume "City r1 = City r2"
  with assms show "\<exists>st1 st2 a. step decode (OpPut r1) st = Inr st1 \<and>
                step decode (OpPut r2) st1 = Inr st2 \<and>
                GetWeather (storage st2) (City r1) = Inr (Some a, storage st2) \<and>
                cells st2 a = r2"
    by (simp add: step_OpPut_unlocked GetWeather_unlocked del: step.simps)
qed

theorem put_then_get_witness:
  "unlocked (mu (storage initial))
   \<and> (\<exists>st' a. step exampleDecoder (OpPut moscow) initial = Inr st' \<and>
         GetWeather (storage st') ''Moscow'' = Inr (Some a, storage st') \<and> cells st' a = moscow)
   \<and> exampleDecoder temperatureBody zeroWeather
        = Some \<lparr>City = [], Temperature = 0x4035800000000000, UpdatedAt = 0\<rparr>
   \<and> (\<exists>st'. updateWeatherHandler exampleDecoder initial ''Moscow'' temperatureBody 7 =
                Inr (RenderJSON moscow, st') \<and>
              getWeatherHandler st' ''Moscow'' = Inr (RenderJSON moscow, st'))
   \<and> (\<exists>st1 st2 a. step exampleDecoder (OpPut (moscow\<lparr>Temperature := 1\<rparr>)) initial = Inr st1 \<and>
          step exampleDecoder (OpPut moscow) st1 = Inr st2 \<and>
          GetWeather (storage st2) ''Moscow'' = Inr (Some a, storage st2) \<and>
          cells st2 a = moscow)"
proof -
  have u: "unlocked (mu (storage initial))"
    by (simp add: initial_def NewWeatherStorage_def unlocked_def)
  have d: "exampleDecoder temperatureBody zeroWeather
        = Some \<lparr>City = [], Temperature = 0x4035800000000000, UpdatedAt = 0\<rparr>"
    by (simp add: exampleDecoder_def temperatureBody_def trailingBody_def zeroWeather_def)
  from put_then_get [OF u, of exampleDecoder moscow "''Moscow''" "temperatureBody"
      "\<lparr>City = [], Temperature = 0x4035800000000000, UpdatedAt = 0\<rparr>" 7
      "moscow\<lparr>Temperature := 1\<rparr>" moscow] u d
  show ?thesis by (simp add: moscow_def del: step.simps)
qed


lemma step_untouched:
  assumes wf: "wellFormed st" and nw: "putCity decode x \<noteq> Some c"
    and s: "step decode x st = Inr st'"
  shows "weathers (storage st') c = weathers (storage st) c"
proof -
  from wf have u: "unlocked (mu (storage st))" by (simp add: wellFormed_def)
  show ?thesis
  proof (cases x)
    case (OpGet city)
    with s u show ?thesis by (simp add: GetWeather_unlocked)
  next
    case (OpPut r)
    with s nw step_OpPut_unlocked [OF u, of decode r] show ?thesis
      by (auto simp del: step.simps)
  next
    case (OpGetRequest city)
    with s u show ?thesis by (simp add: getWeatherHandler_unlocked)
  next
    case (OpUpdateRequest city body now)
    show ?thesis
    proof (cases "city = []")
      case True
      with s OpUpdateRequest show ?thesis by (simp add: updateWeatherHandler_empty)
    next
      case False
      show ?thesis
      proof (cases "decode body zeroWeather")
        case None
        with False s OpUpdateRequest show ?thesis
          by (auto simp add: updateWeatherHandler_reject)
      next
        case (Some w)
        with False s u nw OpUpdateRequest show ?thesis
          by (auto simp add: updateWeatherHandler_accept)
      qed
    qed
  qed
qed

lemma run_untouched:
  "wellFormed st \<Longrightarrow> \<forall>x \<in> set ops. putCity decode x \<noteq> Some c \<Longrightarrow>
   run decode ops st = Inr st' \<Longrightarrow> weathers (storage st') c = weathers (storage st) c"
proof (induction ops arbitrary: st)
  case Nil
  then show ?case by simp
next
  case (Cons x xs)
  from step_wellFormed [OF Cons.prems(1), of decode x]
  obtain st1 where s: "step decode x st = Inr st1" and w: "wellFormed st1" by blast
  from Cons.prems(2) have nx: "putCity decode x \<noteq> Some c"
    and nxs: "\<forall>y \<in> set xs. putCity decode y \<noteq> Some c" by simp_all
  from Cons.prems(3) s have r: "run decode xs st1 = Inr st'" by simp
  from Cons.IH [OF w nxs r] step_untouched [OF Cons.prems(1) nx s]
  show ?case by simp
qed

section \<open>The key of an entry is the city of its record\<close>

text \<open>
  Claim C2. Every sequence of storage calls and requests, run from the empty
  storage, returns, and in the state it reaches each map entry under key \<open>c\<close> holds a
  non-nil pointer to a record whose city is \<open>c\<close>.
\<close>

theorem stored_city_invariant:
  "\<exists>st. run decode ops initial = Inr st \<and>
     (\<forall>c p. weathers (storage st) c = Some p \<longrightarrow> (\<exists>a. p = Some a \<and> City (cells st a) = c))"
proof -
  from run_wellFormed [OF wellFormed_initial, of decode ops]
  obtain st where r: "run decode ops initial = Inr st" and w: "wellFormed st" by blast
  from w have "\<forall>c p. weathers (storage st) c = Some p \<longrightarrow> (\<exists>a. p = Some a \<and> City (cells st a) = c)"
    unfolding wellFormed_def by blast
  with r show ?thesis by blast
qed

theorem stored_city_invariant_witness:
  "\<exists>st. run exampleDecoder
          [OpPut moscow, OpUpdateRequest ''Paris'' ''{}'' 3, OpGetRequest ''Oslo'', OpGet ''Paris'']
          initial = Inr st \<and>
        weathers (storage st) ''Paris'' = Some (Some 1) \<and> City (cells st 1) = ''Paris''"
proof -
  from stored_city_invariant [of exampleDecoder
      "[OpPut moscow, OpUpdateRequest ''Paris'' ''{}'' 3, OpGetRequest ''Oslo'', OpGet ''Paris'']"]
  obtain st where r: "run exampleDecoder
          [OpPut moscow, OpUpdateRequest ''Paris'' ''{}'' 3, OpGetRequest ''Oslo'', OpGet ''Paris'']
          initial = Inr st"
    and i: "\<forall>c p. weathers (storage st) c = Some p \<longrightarrow> (\<exists>a. p = Some a \<and> City (cells st a) = c)"
    by blast
  have u: "unlocked \<lparr>readers = 0, writer = False\<rparr>" by (simp add: unlocked_def)
  from r have w: "weathers (storage st) ''Paris'' = Some (Some 1)"
    by (auto simp add: initial_def NewWeatherStorage_def alloc_def UpdateWeather_unlocked
        GetWeather_unlocked getWeatherHandler_unlocked updateWeatherHandler_accept
        exampleDecoder_def temperatureBody_def trailingBody_def u moscow_def)
  with i have "City (cells st 1) = ''Paris''" by auto
  with r w show ?thesis by blast
qed

section \<open>A city never written is absent\<close>

text \<open>
  Claim C6. If no operation of a run from the empty storage writes city \<open>c\<close>, then
  \<^verbatim>\<open>GetWeather\<close> of \<open>c\<close> returns normally, with nil.
\<close>

theorem never_written_absent:
  assumes "\<forall>x \<in> set ops. putCity decode x \<noteq> Some c"
  shows "\<exists>st. run decode ops initial = Inr st \<and>
              GetWeather (storage st) c = Inr (None, storage st)"
proof -
  from run_wellFormed [OF wellFormed_initial, of decode ops]
  obtain st where r: "run decode ops initial = Inr st" and w: "wellFormed st" by blast
  from run_untouched [OF wellFormed_initial assms r]
  have "weathers (storage st) c = None" by (simp add: initial_def NewWeatherStorage_def)
  moreover from w have "unlocked (mu (storage st))" by (simp add: wellFormed_def)
  ultimately have "GetWeather (storage st) c = Inr (None, storage st)"
    by (simp add: GetWeather_unlocked)
  with r show ?thesis by blast
qed

theorem never_written_absent_witness:
  "map (putCity exampleDecoder)
     [OpPut moscow, OpUpdateRequest ''Paris'' ''{}'' 3, OpUpdateRequest ''Oslo'' ''{'' 4,
      OpGetRequest ''Oslo''] = [Some ''Moscow'', Some ''Paris'', None, None]
   \<and> (\<exists>st. run exampleDecoder
          [OpPut moscow, OpUpdateRequest ''Paris'' ''{}'' 3, OpUpdateRequest ''Oslo'' ''{'' 4,
           OpGetRequest ''Oslo''] initial = Inr st \<and>
        GetWeather (storage st) ''Oslo'' = Inr (None, storage st))"
proof -
  have m: "map (putCity exampleDecoder)
     [OpPut moscow, OpUpdateRequest ''Paris'' ''{}'' 3, OpUpdateRequest ''Oslo'' ''{'' 4,
      OpGetRequest ''Oslo''] = [Some ''Moscow'', Some ''Paris'', None, None]"
    by (simp add: moscow_def exampleDecoder_def temperatureBody_def trailingBody_def)
  have h: "\<forall>x \<in> set [OpPut moscow, OpUpdateRequest ''Paris'' ''{}'' 3,
        OpUpdateRequest ''Oslo'' ''{'' 4, OpGetRequest ''Oslo'']. putCity exampleDecoder x \<noteq> Some ''Oslo''"
    by (simp add: moscow_def exampleDecoder_def temperatureBody_def trailingBody_def)
  from never_written_absent [OF h] m show ?thesis by blast
qed

lemma unlocked_initial: "unlocked (mu (storage initial))"
  by (simp add: initial_def NewWeatherStorage_def unlocked_def)

lemma stored_insert:
  assumes "wellFormed st"
  shows "stored (st\<lparr>cells := (cells st)(nextAddr st := r), nextAddr := Suc (nextAddr st),
            storage := (storage st)\<lparr>weathers := (weathers (storage st))(City r \<mapsto> Some (nextAddr st))\<rparr>\<rparr>)
         = (stored st)(City r \<mapsto> r)"
proof
  fix c
  show "stored (st\<lparr>cells := (cells st)(nextAddr st := r), nextAddr := Suc (nextAddr st),
            storage := (storage st)\<lparr>weathers := (weathers (storage st))(City r \<mapsto> Some (nextAddr st))\<rparr>\<rparr>) c
         = ((stored st)(City r \<mapsto> r)) c"
  proof (cases "c = City r")
    case True
    then show ?thesis by (simp add: stored_def)
  next
    case False
    show ?thesis
    proof (cases "weathers (storage st) c")
      case None
      with False show ?thesis by (simp add: stored_def)
    next
      case (Some p)
      with assms obtain a where "p = Some a" "a < nextAddr st"
        unfolding wellFormed_def by blast
      with False Some show ?thesis by (simp add: stored_def)
    qed
  qed
qed

section \<open>The update request\<close>

text \<open>
  Claim C3. An update request with a non-empty path city and a body the decoder
  accepts is answered with \<^verbatim>\<open>render.JSON\<close> of a record that is also the one stored
  under the path city; its city is the path city and its update time is the server's
  time, whatever city and time the decoded body carried; its temperature is the
  decoded one.
\<close>

theorem update_request_record:
  assumes "unlocked (mu (storage st))" and "city \<noteq> []" and "decode body zeroWeather = Some w"
  shows "\<exists>rec st'. updateWeatherHandler decode st city body now = Inr (RenderJSON rec, st') \<and>
           stored st' city = Some rec \<and>
           City rec = city \<and> UpdatedAt rec = now \<and> Temperature rec = Temperature w"
  using assms by (simp add: updateWeatherHandler_accept stored_def)

theorem update_request_record_witness:
  "unlocked (mu (storage initial)) \<and> ''Moscow'' \<noteq> [] \<and>
   exampleDecoder temperatureBody zeroWeather
     = Some \<lparr>City = [], Temperature = 0x4035800000000000, UpdatedAt = 0\<rparr> \<and>
   (\<exists>rec st'. updateWeatherHandler exampleDecoder initial ''Moscow'' temperatureBody 7 =
        Inr (RenderJSON rec, st') \<and>
      stored st' ''Moscow'' = Some rec \<and>
      City rec = ''Moscow'' \<and> UpdatedAt rec = 7 \<and> Temperature rec = 0x4035800000000000)"
proof -
  have d: "exampleDecoder temperatureBody zeroWeather
     = Some \<lparr>City = [], Temperature = 0x4035800000000000, UpdatedAt = 0\<rparr>"
    by (simp add: exampleDecoder_def temperatureBody_def trailingBody_def zeroWeather_def)
  have n: "''Moscow'' \<noteq> []" by simp
  from update_request_record [where decode = exampleDecoder and body = "temperatureBody"
      and now = 7, OF unlocked_initial n d] unlocked_initial d
  show ?thesis by simp
qed



lemma exampleEncoder_moscowAtZero:
  "exampleEncoder (taggedFields moscowAtZero) = Inr moscowAtZeroJSON"
  by (simp add: exampleEncoder_def taggedFields_def moscowAtZero_def nanWeather_def)

section \<open>The get request\<close>




section \<open>When the update request fails\<close>

text \<open>
  Claim C5, as amended. An update request returns, and its status is 400 exactly
  when the path city is empty or \<^verbatim>\<open>Decode\<close> returns an error; the handler makes no
  check of its own on the payload, so any record the decoder yields is stored. On a
  400 the storage is what it was. On every other call the storage is the result of
  one \<^verbatim>\<open>UpdateWeather\<close> on the storage before the call (the map changed at the path
  city only) and the handler calls \<^verbatim>\<open>render.JSON\<close> on the stored record, with status
  200 when the encoder accepts it.
\<close>

theorem update_request_failure:
  assumes "unlocked (mu (storage st))"
  shows "\<exists>resp st'. updateWeatherHandler decode st city body now = Inr (resp, st') \<and>
      (statusCode encode resp = 400 \<longleftrightarrow> city = [] \<or> decode body zeroWeather = None) \<and>
      (statusCode encode resp = 400 \<longrightarrow> storage st' = storage st) \<and>
      (statusCode encode resp \<noteq> 400 \<longrightarrow>
         resp = RenderJSON (cells st' (nextAddr st)) \<and>
         stored st' city = Some (cells st' (nextAddr st)) \<and>
         UpdateWeather (cells st') (storage st) (Some (nextAddr st)) = Inr (storage st') \<and>
         weathers (storage st') = (weathers (storage st))(city \<mapsto> Some (nextAddr st)) \<and>
         (case encode (taggedFields (cells st' (nextAddr st))) of
            Inl err \<Rightarrow> statusCode encode resp = 500
          | Inr buf \<Rightarrow> statusCode encode resp = 200))"
proof (cases "city = []")
  case True
  then show ?thesis by (simp add: updateWeatherHandler_empty StatusBadRequest_def)
next
  case False
  show ?thesis
  proof (cases "decode body zeroWeather")
    case None
    with False show ?thesis by (simp add: updateWeatherHandler_reject StatusBadRequest_def)
  next
    case (Some w)
    with False assms show ?thesis
      by (simp add: updateWeatherHandler_accept StatusOK_def StatusInternalServerError_def
          UpdateWeather_unlocked stored_def split: sum.splits)
  qed
qed

theorem update_request_failure_witness:
  "unlocked (mu (storage initial)) \<and>
   (\<exists>resp st'. updateWeatherHandler exampleDecoder initial [] ''{}'' 0 = Inr (resp, st') \<and>
      statusCode exampleEncoder resp = 400 \<and> storage st' = storage initial) \<and>
   exampleDecoder ''{'' zeroWeather = None \<and>
   (\<exists>resp st'. updateWeatherHandler exampleDecoder initial ''Moscow'' ''{'' 0 = Inr (resp, st') \<and>
      statusCode exampleEncoder resp = 400 \<and> storage st' = storage initial) \<and>
   exampleDecoder temperatureBody zeroWeather = Some (zeroWeather\<lparr>Temperature := 0x4035800000000000\<rparr>) \<and>
   (\<exists>resp st'. updateWeatherHandler exampleDecoder initial ''Moscow'' temperatureBody 0 = Inr (resp, st') \<and>
      resp = RenderJSON moscowAtZero \<and> statusCode exampleEncoder resp = 200 \<and>
      weathers (storage st') = [''Moscow'' \<mapsto> Some 0])"
proof -
  have d1: "exampleDecoder ''{'' zeroWeather = None"
    by (simp add: exampleDecoder_def temperatureBody_def trailingBody_def)
  have d2: "exampleDecoder temperatureBody zeroWeather
      = Some (zeroWeather\<lparr>Temperature := 0x4035800000000000\<rparr>)"
    by (simp add: exampleDecoder_def temperatureBody_def)
  have i: "weathers (storage initial) = Map.empty" "nextAddr initial = 0"
    by (simp_all add: initial_def NewWeatherStorage_def)
  from update_request_failure [OF unlocked_initial, of exampleDecoder "[]" "''{}''" 0 exampleEncoder]
  have e: "\<exists>resp st'. updateWeatherHandler exampleDecoder initial [] ''{}'' 0 = Inr (resp, st') \<and>
      statusCode exampleEncoder resp = 400 \<and> storage st' = storage initial"
    by auto
  from update_request_failure [OF unlocked_initial, of exampleDecoder "''Moscow''" "''{''" 0 exampleEncoder]
  have a: "\<exists>resp st'. updateWeatherHandler exampleDecoder initial ''Moscow'' ''{'' 0 = Inr (resp, st') \<and>
      statusCode exampleEncoder resp = 400 \<and> storage st' = storage initial"
    using d1 by auto
  from update_request_failure [OF unlocked_initial, of exampleDecoder "''Moscow''" temperatureBody 0
      exampleEncoder]
  obtain resp st' where h: "updateWeatherHandler exampleDecoder initial ''Moscow'' temperatureBody 0
        = Inr (resp, st')"
    and n: "statusCode exampleEncoder resp \<noteq> 400"
    and rest: "statusCode exampleEncoder resp \<noteq> 400 \<longrightarrow>
         resp = RenderJSON (cells st' (nextAddr initial)) \<and>
         stored st' ''Moscow'' = Some (cells st' (nextAddr initial)) \<and>
         UpdateWeather (cells st') (storage initial) (Some (nextAddr initial)) = Inr (storage st') \<and>
         weathers (storage st') = (weathers (storage initial))(''Moscow'' \<mapsto> Some (nextAddr initial)) \<and>
         (case exampleEncoder (taggedFields (cells st' (nextAddr initial))) of
            Inl err \<Rightarrow> statusCode exampleEncoder resp = 500
          | Inr buf \<Rightarrow> statusCode exampleEncoder resp = 200)"
    using d2 by auto
  from updateWeatherHandler_accept [where decode = exampleDecoder and body = temperatureBody
      and now = 0 and city = "''Moscow''", OF unlocked_initial _ d2] h
  have c: "cells st' (nextAddr initial) = moscowAtZero"
    by (auto simp add: i zeroWeather_def moscowAtZero_def)
  from rest n c i exampleEncoder_moscowAtZero
  have "resp = RenderJSON moscowAtZero \<and> statusCode exampleEncoder resp = 200 \<and>
      weathers (storage st') = [''Moscow'' \<mapsto> Some 0]" by (simp add: StatusOK_def)
  with h have b: "\<exists>resp st'. updateWeatherHandler exampleDecoder initial ''Moscow'' temperatureBody 0
        = Inr (resp, st') \<and>
      resp = RenderJSON moscowAtZero \<and> statusCode exampleEncoder resp = 200 \<and>
      weathers (storage st') = [''Moscow'' \<mapsto> Some 0]" by blast
  from unlocked_initial e d1 a d2 b show ?thesis by blast
qed

text \<open>
  The claim as first stated ties the 400 to the body not being well-formed JSON, and
  says no range of temperature makes the call fail. A body that is well-formed JSON
  but whose temperature does not fit \<^verbatim>\<open>float64\<close> is answered with 400; a body that is
  not well-formed JSON, a value followed by further bytes, is accepted and answered
  with 200.
\<close>

theorem update_request_json_mismatch:
  "wellFormedJSON rangeBody \<and>
   updateWeatherHandler exampleDecoder initial ''Moscow'' rangeBody 0 =
     Inr (HttpError ''Invalid request body'' 400, afterRejectedBody) \<and>
   statusCode exampleEncoder (HttpError ''Invalid request body'' 400) = 400 \<and>
   \<not> wellFormedJSON trailingBody \<and>
   updateWeatherHandler exampleDecoder initial ''Moscow'' trailingBody 0 =
     Inr (RenderJSON moscowAtZero, afterPut moscowAtZero) \<and>
   statusCode exampleEncoder (RenderJSON moscowAtZero) = 200"
proof -
  have w1: "wellFormedJSON rangeBody" by code_simp
  have w2: "\<not> wellFormedJSON trailingBody" by code_simp
  have d1: "exampleDecoder rangeBody zeroWeather = None"
    by (simp add: exampleDecoder_def rangeBody_def temperatureBody_def trailingBody_def)
  have d2: "exampleDecoder trailingBody zeroWeather
      = Some (zeroWeather\<lparr>Temperature := 0x4035800000000000\<rparr>)"
    by (simp add: exampleDecoder_def trailingBody_def)
  have n: "''Moscow'' \<noteq> []" by simp
  have a: "updateWeatherHandler exampleDecoder initial ''Moscow'' rangeBody 0 =
     Inr (HttpError ''Invalid request body'' 400, afterRejectedBody)"
    using updateWeatherHandler_reject [where decode = exampleDecoder and body = rangeBody
        and now = 0 and st = initial, OF n d1]
    by (simp add: afterRejectedBody_def StatusBadRequest_def initial_def)
  have b: "updateWeatherHandler exampleDecoder initial ''Moscow'' trailingBody 0 =
     Inr (RenderJSON moscowAtZero, afterPut moscowAtZero)"
    using updateWeatherHandler_accept [where decode = exampleDecoder and body = trailingBody
        and now = 0, OF unlocked_initial n d2]
    by (simp add: afterPut_def moscowAtZero_def zeroWeather_def initial_def NewWeatherStorage_def)
  have s1: "statusCode exampleEncoder (HttpError ''Invalid request body'' 400) = 400" by simp
  have s2: "statusCode exampleEncoder (RenderJSON moscowAtZero) = 200"
    by (simp add: exampleEncoder_moscowAtZero StatusOK_def)
  from w1 a s1 w2 b s2 show ?thesis by blast
qed

lemma wellFormed_unlocked: "wellFormed st \<Longrightarrow> unlocked (mu (storage st))"
  by (simp add: wellFormed_def)

lemma step_OpPut_stored:
  assumes "wellFormed st"
  shows "\<exists>st'. step decode (OpPut r) st = Inr st' \<and> wellFormed st' \<and>
               stored st' = (stored st)(City r \<mapsto> r)"
  using step_OpPut_unlocked [OF wellFormed_unlocked [OF assms], of decode r]
    wellFormed_insert [OF assms, of r] stored_insert [OF assms, of r]
  by (simp del: step.simps)

lemma updateWeatherHandler_stored:
  assumes "wellFormed st" and "city \<noteq> []" and "decode body zeroWeather = Some w"
  shows "\<exists>st'. updateWeatherHandler decode st city body now =
                  Inr (RenderJSON (w\<lparr>City := city, UpdatedAt := now\<rparr>), st') \<and>
               wellFormed st' \<and>
               stored st' = (stored st)(city \<mapsto> w\<lparr>City := city, UpdatedAt := now\<rparr>)"
  using updateWeatherHandler_accept [OF wellFormed_unlocked [OF assms(1)] assms(2),
      where decode = decode and body = body and w = w and now = now] assms(3)
    wellFormed_insert [OF assms(1), of "w\<lparr>City := city, UpdatedAt := now\<rparr>"]
    stored_insert [OF assms(1), of "w\<lparr>City := city, UpdatedAt := now\<rparr>"]
  by simp

section \<open>Putting twice\<close>

text \<open>
  Claim C7. \<^verbatim>\<open>UpdateWeather\<close> of the same pointer twice leaves the storage of the first
  call. Putting the same record twice from a state a run reaches leaves the stored
  records of the first put. Two accepted update requests with the same city and body,
  at times \<open>t1\<close> and \<open>t2\<close>, leave the stored records one request at \<open>t2\<close> leaves: the
  only difference to the state after the first is the update time.
\<close>

theorem put_idempotent:
  "(unlocked (mu s) \<longrightarrow>
      (\<exists>s1. UpdateWeather h s (Some a) = Inr s1 \<and> UpdateWeather h s1 (Some a) = Inr s1))
   \<and> (run decode ops initial = Inr st \<longrightarrow>
      (\<exists>st1 st2. step decode (OpPut r) st = Inr st1 \<and> step decode (OpPut r) st1 = Inr st2 \<and>
          stored st1 = (stored st)(City r \<mapsto> r) \<and> stored st2 = stored st1))
   \<and> (run decode ops initial = Inr st \<and> city \<noteq> [] \<and> decode body zeroWeather = Some w \<longrightarrow>
      (\<exists>resp1 st1 resp2 st2.
          updateWeatherHandler decode st city body t1 = Inr (resp1, st1) \<and>
          updateWeatherHandler decode st1 city body t2 = Inr (resp2, st2) \<and>
          stored st1 = (stored st)(city \<mapsto> w\<lparr>City := city, UpdatedAt := t1\<rparr>) \<and>
          stored st2 = (stored st)(city \<mapsto> w\<lparr>City := city, UpdatedAt := t2\<rparr>)))"
proof (intro conjI impI)
  assume u: "unlocked (mu s)"
  then show "\<exists>s1. UpdateWeather h s (Some a) = Inr s1 \<and> UpdateWeather h s1 (Some a) = Inr s1"
    by (simp add: UpdateWeather_unlocked)
next
  assume "run decode ops initial = Inr st"
  from reachable_wellFormed [OF this] have w0: "wellFormed st" .
  from step_OpPut_stored [OF w0, of decode r]
  obtain st1 where s1: "step decode (OpPut r) st = Inr st1" and w1: "wellFormed st1"
    and v1: "stored st1 = (stored st)(City r \<mapsto> r)" by blast
  from step_OpPut_stored [OF w1, of decode r]
  obtain st2 where s2: "step decode (OpPut r) st1 = Inr st2"
    and v2: "stored st2 = (stored st1)(City r \<mapsto> r)" by blast
  from v1 v2 have "stored st2 = stored st1" by simp
  with s1 s2 v1
  show "\<exists>st1 st2. step decode (OpPut r) st = Inr st1 \<and> step decode (OpPut r) st1 = Inr st2 \<and>
          stored st1 = (stored st)(City r \<mapsto> r) \<and> stored st2 = stored st1"
    by blast
next
  assume h: "run decode ops initial = Inr st \<and> city \<noteq> [] \<and> decode body zeroWeather = Some w"
  then have r: "run decode ops initial = Inr st" and c: "city \<noteq> []"
    and d: "decode body zeroWeather = Some w" by simp_all
  from reachable_wellFormed [OF r] have w0: "wellFormed st" .
  from updateWeatherHandler_stored [where decode = decode and body = body and now = t1, OF w0 c d]
  obtain st1 where s1: "updateWeatherHandler decode st city body t1 =
        Inr (RenderJSON (w\<lparr>City := city, UpdatedAt := t1\<rparr>), st1)"
    and w1: "wellFormed st1"
    and v1: "stored st1 = (stored st)(city \<mapsto> w\<lparr>City := city, UpdatedAt := t1\<rparr>)" by blast
  from updateWeatherHandler_stored [where decode = decode and body = body and now = t2, OF w1 c d]
  obtain st2 where s2: "updateWeatherHandler decode st1 city body t2 =
        Inr (RenderJSON (w\<lparr>City := city, UpdatedAt := t2\<rparr>), st2)"
    and v2: "stored st2 = (stored st1)(city \<mapsto> w\<lparr>City := city, UpdatedAt := t2\<rparr>)" by blast
  from v1 v2 have "stored st2 = (stored st)(city \<mapsto> w\<lparr>City := city, UpdatedAt := t2\<rparr>)"
    by simp
  with s1 s2 v1
  show "\<exists>resp1 st1 resp2 st2.
          updateWeatherHandler decode st city body t1 = Inr (resp1, st1) \<and>
          updateWeatherHandler decode st1 city body t2 = Inr (resp2, st2) \<and>
          stored st1 = (stored st)(city \<mapsto> w\<lparr>City := city, UpdatedAt := t1\<rparr>) \<and>
          stored st2 = (stored st)(city \<mapsto> w\<lparr>City := city, UpdatedAt := t2\<rparr>)"
    by blast
qed

theorem put_idempotent_witness:
  "unlocked (mu NewWeatherStorage)
   \<and> (\<exists>s1. UpdateWeather (\<lambda>a. moscow) NewWeatherStorage (Some 0) = Inr s1 \<and>
            UpdateWeather (\<lambda>a. moscow) s1 (Some 0) = Inr s1)
   \<and> run exampleDecoder [] initial = Inr initial
   \<and> (\<exists>st1 st2. step exampleDecoder (OpPut moscow) initial = Inr st1 \<and>
          step exampleDecoder (OpPut moscow) st1 = Inr st2 \<and>
          stored st1 = [''Moscow'' \<mapsto> moscow] \<and> stored st2 = stored st1)
   \<and> exampleDecoder ''{}'' zeroWeather = Some zeroWeather
   \<and> (\<exists>resp1 st1 resp2 st2.
          updateWeatherHandler exampleDecoder initial ''Oslo'' ''{}'' 3 = Inr (resp1, st1) \<and>
          updateWeatherHandler exampleDecoder st1 ''Oslo'' ''{}'' 4 = Inr (resp2, st2) \<and>
          stored st1 = [''Oslo'' \<mapsto> \<lparr>City = ''Oslo'', Temperature = 0, UpdatedAt = 3\<rparr>] \<and>
          stored st2 = [''Oslo'' \<mapsto> \<lparr>City = ''Oslo'', Temperature = 0, UpdatedAt = 4\<rparr>])"
proof -
  have u: "unlocked (mu NewWeatherStorage)" by (simp add: NewWeatherStorage_def unlocked_def)
  have r: "run exampleDecoder [] initial = Inr initial" by simp
  have d: "exampleDecoder ''{}'' zeroWeather = Some zeroWeather" by (simp add: exampleDecoder_def temperatureBody_def trailingBody_def)
  have e: "stored initial = Map.empty"
    by (rule ext) (simp add: stored_def initial_def NewWeatherStorage_def)
  have m: "City moscow = ''Moscow''" by (simp add: moscow_def)
  have z: "zeroWeather\<lparr>City := ''Oslo'', UpdatedAt := t\<rparr>
      = \<lparr>City = ''Oslo'', Temperature = 0, UpdatedAt = t\<rparr>" for t
    by (simp add: zeroWeather_def)
  from put_idempotent [of NewWeatherStorage "\<lambda>a. moscow" 0 exampleDecoder "[]" initial moscow
      "''Oslo''" "''{}''" zeroWeather 3 4] u r d e m z
  show ?thesis by simp
qed

section \<open>What a call leaves alone\<close>




section \<open>The empty city\<close>

text \<open>
  Claim C10. The storage accepts a record whose city is the empty string: the put
  returns, the record is stored under the empty key, and \<^verbatim>\<open>GetWeather\<close> of the empty
  string returns it. Both handlers answer an empty path city with 400 and leave the
  state untouched.
\<close>

theorem empty_city_store:
  assumes "unlocked (mu (storage st))" and "City r = []"
  shows "(\<exists>st' a. step decode (OpPut r) st = Inr st' \<and>
            weathers (storage st') [] = Some (Some a) \<and> cells st' a = r \<and>
            GetWeather (storage st') [] = Inr (Some a, storage st'))
       \<and> (\<exists>resp. getWeatherHandler st [] = Inr (resp, st) \<and> statusCode encode resp = 400)
       \<and> (\<exists>resp. updateWeatherHandler decode st [] body now = Inr (resp, st) \<and>
            statusCode encode resp = 400)"
proof (intro conjI)
  from assms
  show "\<exists>st' a. step decode (OpPut r) st = Inr st' \<and>
            weathers (storage st') [] = Some (Some a) \<and> cells st' a = r \<and>
            GetWeather (storage st') [] = Inr (Some a, storage st')"
    by (simp add: step_OpPut_unlocked GetWeather_unlocked del: step.simps)
next
  show "\<exists>resp. getWeatherHandler st [] = Inr (resp, st) \<and> statusCode encode resp = 400"
    by (simp add: getWeatherHandler_def StatusBadRequest_def)
next
  show "\<exists>resp. updateWeatherHandler decode st [] body now = Inr (resp, st) \<and>
            statusCode encode resp = 400"
    by (simp add: updateWeatherHandler_empty StatusBadRequest_def)
qed

theorem empty_city_store_witness:
  "unlocked (mu (storage initial)) \<and> City (moscow\<lparr>City := []\<rparr>) = []
   \<and> (\<exists>st' a. step exampleDecoder (OpPut (moscow\<lparr>City := []\<rparr>)) initial = Inr st' \<and>
          weathers (storage st') [] = Some (Some a) \<and> cells st' a = moscow\<lparr>City := []\<rparr> \<and>
          GetWeather (storage st') [] = Inr (Some a, storage st'))
   \<and> (\<exists>resp. getWeatherHandler initial [] = Inr (resp, initial) \<and> statusCode exampleEncoder resp = 400)
   \<and> (\<exists>resp. updateWeatherHandler exampleDecoder initial [] ''{}'' 7 = Inr (resp, initial) \<and>
          statusCode exampleEncoder resp = 400)"
proof -
  have c: "City (moscow\<lparr>City := []\<rparr>) = []" by simp
  from empty_city_store [OF unlocked_initial c, of exampleDecoder exampleEncoder "''{}''" 7] unlocked_initial c
  show ?thesis by blast
qed

end
